theory Spec2Isabelle
  imports Main
begin

section \<open>Data model\<close>

text \<open>
  The booking subsystem of the car rental backend: \<^verbatim>\<open>bookings/models.py\<close>,
  \<^verbatim>\<open>bookings/services.py\<close>, \<^verbatim>\<open>cars/models.py\<close> and
  \<^verbatim>\<open>cars/services.py\<close>.

  \<^item> A \<^verbatim>\<open>DateTimeField\<close> value is a Python \<^verbatim>\<open>datetime\<close> with microsecond
    resolution, naive (no time zone) or aware. Either kind is kept with its number of
    microseconds since the epoch (for an aware value, of its instant in UTC). A
    \<^verbatim>\<open>timedelta\<close> is kept as a (possibly negative) number of microseconds.
  \<^item> A \<^verbatim>\<open>DecimalField\<close> with \<^verbatim>\<open>decimal_places=2\<close> holds a whole number of
    hundredths; it is kept as that number (\<open>5000\<close> stands for \<open>50.00\<close>).
  \<^item> Status fields are character fields, compared with string literals by the code.
  \<^item> Primary keys and foreign keys are opaque keys, kept as natural numbers.
  \<^item> A database table is the list of its rows, each row the model instance a query
    returns for it.
\<close>

datatype datetime = Naive int | Aware int

primrec instant :: "datetime \<Rightarrow> int" where
  "instant (Naive t) = t"
| "instant (Aware t) = t"

primrec is_aware :: "datetime \<Rightarrow> bool" where
  "is_aware (Naive t) = False"
| "is_aware (Aware t) = True"

type_synonym timedelta = int
type_synonym decimal2 = int
type_synonym car_key = nat
type_synonym user_key = nat
type_synonym booking_key = nat

text \<open>\<^verbatim>\<open>class Booking(models.Model)\<close> in \<^verbatim>\<open>bookings/models.py\<close>.\<close>

record booking =
  booking_id :: booking_key
  booking_user :: user_key
  booking_car :: car_key
  booking_start :: datetime
  booking_end :: datetime
  total_price :: decimal2
  booking_status :: string
  stripe_payment_intent :: "string option"
  booking_created_at :: datetime

text \<open>\<^verbatim>\<open>class Car(models.Model)\<close> in \<^verbatim>\<open>cars/models.py\<close>.\<close>

record car =
  car_id :: car_key
  car_name :: string
  description :: "string option"
  car_make :: string
  car_model :: string
  year :: nat
  fuel_type :: string
  transmission :: string
  seats :: nat
  doors :: nat
  price_per_day :: decimal2
  location :: string
  car_status :: string
  features :: "string option"
  owner :: user_key
  car_created_at :: datetime
  updated_at :: datetime
  is_active :: bool

text \<open>The database: the two tables the booking subsystem reads and writes.\<close>

record db =
  cars :: "car list"
  bookings :: "booking list"

text \<open>
  The exceptions: the built-in \<^verbatim>\<open>ValueError\<close> and
  \<^verbatim>\<open>BookingService.BookingConflictError\<close> the services raise, each with its message;
  the \<^verbatim>\<open>TypeError\<close> Python raises when a naive and an aware \<^verbatim>\<open>datetime\<close> are
  compared or subtracted; and \<^verbatim>\<open>decimal.InvalidOperation\<close>, with which a value of
  more digits than its \<^verbatim>\<open>DecimalField\<close> allows is refused when a row is written.
\<close>

datatype error =
    ValueError string
  | BookingConflictError string
  | TypeError string
  | InvalidOperation

section \<open>Python datetimes\<close>

text \<open>
  \<^verbatim>\<open>a <= b\<close>, \<^verbatim>\<open>a >= b\<close> and \<^verbatim>\<open>a - b\<close> on \<^verbatim>\<open>datetime\<close> values: values of the same
  kind are compared and subtracted by their microseconds, values of different kinds
  raise \<^verbatim>\<open>TypeError\<close>.
\<close>

definition datetime_le :: "datetime \<Rightarrow> datetime \<Rightarrow> error + bool" where
  "datetime_le a b =
     (if is_aware a \<noteq> is_aware b
      then Inl (TypeError ''can't compare offset-naive and offset-aware datetimes'')
      else Inr (instant a \<le> instant b))"

definition datetime_ge :: "datetime \<Rightarrow> datetime \<Rightarrow> error + bool" where
  "datetime_ge a b =
     (if is_aware a \<noteq> is_aware b
      then Inl (TypeError ''can't compare offset-naive and offset-aware datetimes'')
      else Inr (instant a \<ge> instant b))"

definition datetime_sub :: "datetime \<Rightarrow> datetime \<Rightarrow> error + timedelta" where
  "datetime_sub a b =
     (if is_aware a \<noteq> is_aware b
      then Inl (TypeError ''can't subtract offset-naive and offset-aware datetimes'')
      else Inr (instant a - instant b))"

text \<open>
  \<^verbatim>\<open>x or y\<close> on truth values: \<open>y\<close> is evaluated only when \<open>x\<close> is false, so an
  exception of \<open>y\<close> is raised only then.
\<close>

fun py_or :: "error + bool \<Rightarrow> error + bool \<Rightarrow> error + bool" where
  "py_or (Inl e) y = Inl e"
| "py_or (Inr True) y = Inr True"
| "py_or (Inr False) y = y"

section \<open>Object-relational layer\<close>

text \<open>\<^verbatim>\<open>Car.objects.get(pk=car_id)\<close>; \<open>None\<close> stands for \<^verbatim>\<open>Car.DoesNotExist\<close>.\<close>

definition get_car :: "db \<Rightarrow> car_key \<Rightarrow> car option" where
  "get_car d cid = find (\<lambda>c. car_id c = cid) (cars d)"

text \<open>\<^verbatim>\<open>Booking.objects.get(id=booking_id)\<close>; \<open>None\<close> stands for \<^verbatim>\<open>Booking.DoesNotExist\<close>.\<close>

definition get_booking :: "db \<Rightarrow> booking_key \<Rightarrow> booking option" where
  "get_booking d bid = find (\<lambda>b. booking_id b = bid) (bookings d)"

text \<open>
  \<^verbatim>\<open>booking.save()\<close> writes every field of the instance to the row with the instance's
  primary key, and inserts the row when the table has none with that key.
\<close>

definition save_booking :: "booking \<Rightarrow> db \<Rightarrow> db" where
  "save_booking b d =
     (if \<exists>r \<in> set (bookings d). booking_id r = booking_id b
      then d\<lparr>bookings := map (\<lambda>r. if booking_id r = booking_id b then b else r) (bookings d)\<rparr>
      else d\<lparr>bookings := bookings d @ [b]\<rparr>)"

text \<open>
  \<^verbatim>\<open>car.save()\<close>. The field \<^verbatim>\<open>updated_at\<close> is declared with \<^verbatim>\<open>auto_now=True\<close>, so
  every save sets it, on the instance and in the row, to the clock reading of the save.
\<close>

definition save_car :: "datetime \<Rightarrow> car \<Rightarrow> db \<Rightarrow> car \<times> db" where
  "save_car now c d =
     (let c' = c\<lparr>updated_at := now\<rparr>
      in (c',
          if \<exists>r \<in> set (cars d). car_id r = car_id c'
          then d\<lparr>cars := map (\<lambda>r. if car_id r = car_id c' then c' else r) (cars d)\<rparr>
          else d\<lparr>cars := cars d @ [c']\<rparr>))"

text \<open>
  The key the database gives to a new booking row (an auto-incremented integer):
  one more than the largest key in the table.
\<close>

definition new_booking_id :: "booking list \<Rightarrow> booking_key" where
  "new_booking_id rows = Suc (fold max (map booking_id rows) 0)"

text \<open>
  A \<^verbatim>\<open>DecimalField(max_digits=n, decimal_places=2)\<close> takes a value of at most \<open>n\<close>
  digits, the two decimal places included: a number of hundredths below \<open>10 ^ n\<close> in
  absolute value.
\<close>

definition decimal_fits :: "nat \<Rightarrow> decimal2 \<Rightarrow> bool" where
  "decimal_fits max_digits v = (\<bar>v\<bar> < 10 ^ max_digits)"

text \<open>
  \<^verbatim>\<open>Booking.objects.create(user, car, start, end, total_price, status="pending")\<close>.
  \<^verbatim>\<open>total_price\<close> is declared with \<^verbatim>\<open>max_digits=10\<close>: a price of more digits is
  refused with \<^verbatim>\<open>decimal.InvalidOperation\<close> and no row is written. Otherwise the row
  is inserted with a new key, a null \<^verbatim>\<open>stripe_payment_intent\<close> and, for
  \<^verbatim>\<open>created_at\<close> (\<^verbatim>\<open>auto_now_add\<close>), the clock reading \<open>now\<close>.
\<close>

definition booking_objects_create ::
  "db \<Rightarrow> datetime \<Rightarrow> user_key \<Rightarrow> car \<Rightarrow> datetime \<Rightarrow> datetime \<Rightarrow> decimal2 \<Rightarrow> (error + booking) \<times> db" where
  "booking_objects_create d now user c start end' price =
     (if \<not> decimal_fits 10 price then (Inl InvalidOperation, d)
      else
        let b = \<lparr>booking_id = new_booking_id (bookings d),
                 booking_user = user,
                 booking_car = car_id c,
                 booking_start = start,
                 booking_end = end',
                 total_price = price,
                 booking_status = ''pending'',
                 stripe_payment_intent = None,
                 booking_created_at = now\<rparr>
        in (Inr b, d\<lparr>bookings := bookings d @ [b]\<rparr>))"

section \<open>Booking service\<close>

text \<open>\<^verbatim>\<open>Booking.overlaps\<close> in \<^verbatim>\<open>bookings/models.py\<close>.\<close>

definition overlaps :: "booking \<Rightarrow> datetime \<Rightarrow> datetime \<Rightarrow> error + bool" where
  "overlaps self start end' =
     map_sum id Not (py_or (datetime_le (booking_end self) start) (datetime_ge (booking_start self) end'))"

text \<open>
  \<^verbatim>\<open>BookingService._is_car_available\<close>: the query for the car's bookings with status
  \<^verbatim>\<open>pending\<close> or \<^verbatim>\<open>confirmed\<close>, in the model's order (\<^verbatim>\<open>ordering = ["-start"]\<close>:
  latest start first, rows of equal start in table order), then the loop over its rows.
  The loop returns \<^verbatim>\<open>False\<close> at the first row that overlaps the requested range, and
  the comparison of line 84 raises \<^verbatim>\<open>TypeError\<close> at the first row it reaches whose
  datetimes are not of the kind of the request's.
\<close>

definition conflicting_bookings :: "db \<Rightarrow> car \<Rightarrow> booking list" where
  "conflicting_bookings d c =
     sort_key (\<lambda>b. - instant (booking_start b))
       (filter (\<lambda>b. booking_car b = car_id c \<and> booking_status b \<in> set [''pending'', ''confirmed''])
          (bookings d))"

fun is_car_available_loop :: "booking list \<Rightarrow> datetime \<Rightarrow> datetime \<Rightarrow> error + bool" where
  "is_car_available_loop [] start end' = Inr True"
| "is_car_available_loop (b # rest) start end' =
     (case py_or (datetime_le (booking_end b) start) (datetime_ge (booking_start b) end') of
        Inl e \<Rightarrow> Inl e
      | Inr apart \<Rightarrow>
          if \<not> apart then Inr False
          else is_car_available_loop rest start end')"

definition is_car_available :: "db \<Rightarrow> car \<Rightarrow> datetime \<Rightarrow> datetime \<Rightarrow> error + bool" where
  "is_car_available d c start end' = is_car_available_loop (conflicting_bookings d c) start end'"

text \<open>
  \<^verbatim>\<open>BookingService._calculate_total_price\<close>. \<^verbatim>\<open>duration.days\<close> is the floor of the
  duration in days (a \<^verbatim>\<open>timedelta\<close> is normalised so that only its days are negative),
  which is what \<open>div\<close> on \<open>int\<close> computes. The subtraction of line 91 raises
  \<^verbatim>\<open>TypeError\<close> when \<open>start\<close> and \<open>end\<close> are not of the same kind.
\<close>

definition microseconds_per_day :: int where
  "microseconds_per_day = 86400000000"

definition timedelta_days :: "timedelta \<Rightarrow> int" where
  "timedelta_days duration = duration div microseconds_per_day"

definition calculate_total_price :: "car \<Rightarrow> datetime \<Rightarrow> datetime \<Rightarrow> error + decimal2" where
  "calculate_total_price c start end' =
     (case datetime_sub end' start of
        Inl e \<Rightarrow> Inl e
      | Inr duration \<Rightarrow>
          let days = max (timedelta_days duration) 1
          in Inr (days * price_per_day c))"

text \<open>
  \<^verbatim>\<open>BookingService.create_booking\<close>. The result is the exception raised or the booking
  returned, together with the database afterwards. \<open>now\<close> is the clock reading that
  \<^verbatim>\<open>auto_now_add\<close> stores in \<^verbatim>\<open>created_at\<close>. An exception of the availability
  check, of the price computation or of the insert leaves the function as it is raised.
\<close>

definition create_booking ::
  "db \<Rightarrow> datetime \<Rightarrow> user_key \<Rightarrow> car_key \<Rightarrow> datetime \<Rightarrow> datetime \<Rightarrow> (error + booking) \<times> db" where
  "create_booking d now user cid start end' =
     (case get_car d cid of
        None \<Rightarrow> (Inl (ValueError ''Car not found''), d)
      | Some c \<Rightarrow>
          (case is_car_available d c start end' of
             Inl e \<Rightarrow> (Inl e, d)
           | Inr available \<Rightarrow>
               if \<not> available
               then (Inl (BookingConflictError ''Car not available for selected dates''), d)
               else
                 (case calculate_total_price c start end' of
                    Inl e \<Rightarrow> (Inl e, d)
                  | Inr price \<Rightarrow> booking_objects_create d now user c start end' price)))"

text \<open>
  \<^verbatim>\<open>BookingService.cancel_booking\<close>: the result, the booking instance afterwards and the
  database afterwards.
\<close>

definition cancel_booking :: "db \<Rightarrow> booking \<Rightarrow> (error + unit) \<times> booking \<times> db" where
  "cancel_booking d b =
     (if booking_status b \<notin> set [''pending'', ''confirmed'']
      then (Inl (ValueError ''Cannot cancel booking in current status''), b, d)
      else
        let b' = b\<lparr>booking_status := ''cancelled''\<rparr>
        in (Inr (), b', save_booking b' d))"

section \<open>Payment service\<close>

text \<open>
  The payment gateway is an external service. A payment intent is the object the gateway
  returns from \<^verbatim>\<open>stripe.PaymentIntent.create\<close> and sends back in the
  \<^verbatim>\<open>data.object\<close> of a webhook event. Its metadata entry \<^verbatim>\<open>booking_id\<close> carries the
  decimal text of a booking key and is kept as the key it denotes; \<open>None\<close> stands for
  an entry that is absent or empty, which is what the test \<^verbatim>\<open>if booking_id:\<close> rejects.
\<close>

record payment_intent =
  intent_id :: string
  client_secret :: string
  metadata_booking_id :: "booking_key option"

text \<open>
  The gateway's answer to \<^verbatim>\<open>stripe.PaymentIntent.create(amount, currency, metadata)\<close> is a
  parameter of the model: a function of the amount in cents, the currency and the
  booking key put in the metadata.
\<close>

type_synonym gateway = "int \<Rightarrow> string \<Rightarrow> booking_key \<Rightarrow> payment_intent"

text \<open>The dictionary \<^verbatim>\<open>create_payment_intent\<close> returns.\<close>

record payment_data =
  data_client_secret :: string
  data_intent_id :: string

text \<open>A verified webhook event: \<^verbatim>\<open>event["type"]\<close> and \<^verbatim>\<open>event["data"]["object"]\<close>.\<close>

record event =
  event_type :: string
  event_object :: payment_intent

text \<open>
  \<^verbatim>\<open>PaymentService.create_payment_intent\<close>. \<^verbatim>\<open>int(booking.total_price * 100)\<close> is the
  total price in cents, the number of hundredths the model keeps.
\<close>

definition create_payment_intent ::
  "gateway \<Rightarrow> db \<Rightarrow> booking \<Rightarrow> (error + payment_data) \<times> booking \<times> db" where
  "create_payment_intent stripe d b =
     (if booking_status b \<noteq> ''pending''
      then (Inl (ValueError ''Booking is not in pending state''), b, d)
      else
        let intent = stripe (total_price b) ''usd'' (booking_id b);
            b' = b\<lparr>stripe_payment_intent := Some (intent_id intent)\<rparr>
        in (Inr \<lparr>data_client_secret = client_secret intent, data_intent_id = intent_id intent\<rparr>,
            b', save_booking b' d))"

text \<open>\<^verbatim>\<open>PaymentService._handle_payment_success\<close>.\<close>

definition handle_payment_success :: "db \<Rightarrow> payment_intent \<Rightarrow> (error + unit) \<times> db" where
  "handle_payment_success d pi =
     (case metadata_booking_id pi of
        None \<Rightarrow> (Inr (), d)
      | Some bid \<Rightarrow>
          (case get_booking d bid of
             None \<Rightarrow> (Inr (), d)
           | Some b \<Rightarrow> (Inr (), save_booking (b\<lparr>booking_status := ''confirmed''\<rparr>) d)))"

text \<open>\<^verbatim>\<open>PaymentService.handle_webhook_event\<close>.\<close>

definition handle_webhook_event :: "db \<Rightarrow> event \<Rightarrow> (error + unit) \<times> db" where
  "handle_webhook_event d ev =
     (if event_type ev = ''payment_intent.succeeded''
      then handle_payment_success d (event_object ev)
      else (Inr (), d))"

section \<open>Car service\<close>

text \<open>
  \<^verbatim>\<open>CarService.update_car_status_after_booking\<close>. The clock is read once for each
  \<^verbatim>\<open>timezone.now()\<close> of the query (\<open>now_lte\<close> for \<^verbatim>\<open>start__lte\<close>, \<open>now_gte\<close> for
  \<^verbatim>\<open>end__gte\<close>) and once by the save (\<open>now_save\<close>). The query's comparisons are made
  by the database, on the stored instants. The result is the car instance and the
  database afterwards.
\<close>

definition update_car_status_after_booking ::
  "db \<Rightarrow> datetime \<Rightarrow> datetime \<Rightarrow> datetime \<Rightarrow> car \<Rightarrow> string \<Rightarrow> car \<times> db" where
  "update_car_status_after_booking d now_lte now_gte now_save c status =
     (if status = ''confirmed''
      then save_car now_save (c\<lparr>car_status := ''rented''\<rparr>) d
      else if status \<in> set [''cancelled'', ''completed'']
      then
        let active_bookings =
              (filter (\<lambda>b. booking_car b = car_id c \<and>
                            booking_status b \<in> set [''pending'', ''confirmed''] \<and>
                            instant (booking_start b) \<le> instant now_lte \<and>
                            instant (booking_end b) \<ge> instant now_gte)
                 (bookings d) \<noteq> [])
        in if \<not> active_bookings
           then save_car now_save (c\<lparr>car_status := ''available''\<rparr>) d
           else (c, d)
      else (c, d))"

text \<open>\<^verbatim>\<open>Car.is_available_for_booking\<close> in \<^verbatim>\<open>cars/models.py\<close>.\<close>

definition is_available_for_booking :: "car \<Rightarrow> bool" where
  "is_available_for_booking self = (car_status self = ''available'' \<and> is_active self)"

section \<open>Requests served side by side\<close>






section \<open>Sample data\<close>

text \<open>
  A car at 50.00 a day, aware datetimes of January 2024 (UTC), the epoch, and a booking of
  that car.
\<close>

abbreviation epoch :: datetime where
  "epoch \<equiv> Aware 0"

abbreviation sample_car :: car where
  "sample_car \<equiv>
     \<lparr>car_id = 7, car_name = ''City car'', description = None, car_make = ''Toyota'',
      car_model = ''Yaris'', year = 2020, fuel_type = ''gasoline'', transmission = ''manual'',
      seats = 5, doors = 4, price_per_day = 5000, location = ''Lahore'',
      car_status = ''available'', features = None, owner = 1, car_created_at = epoch,
      updated_at = epoch, is_active = True\<rparr>"

abbreviation jan :: "int \<Rightarrow> int \<Rightarrow> datetime" where
  "jan day hour \<equiv> Aware (1704067200000000 + (day - 1) * 86400000000 + hour * 3600000000)"

abbreviation sample_booking :: "string \<Rightarrow> datetime \<Rightarrow> datetime \<Rightarrow> booking" where
  "sample_booking st s e \<equiv>
     \<lparr>booking_id = 1, booking_user = 3, booking_car = 7, booking_start = s, booking_end = e,
      total_price = 10000, booking_status = st, stripe_payment_intent = None,
      booking_created_at = epoch\<rparr>"

text \<open>A gateway that answers every request with the given intent id and client secret.\<close>

abbreviation sample_gateway :: "string \<Rightarrow> string \<Rightarrow> gateway" where
  "sample_gateway ref secret \<equiv>
     (\<lambda>amount currency bid.
        \<lparr>intent_id = ref, client_secret = secret, metadata_booking_id = Some bid\<rparr>)"

section \<open>Facts about the object-relational layer\<close>

lemma fold_max_ge_init: "(a::nat) \<le> fold max xs a"
  by (induction xs arbitrary: a) (auto intro: order_trans [OF max.cobounded2])

lemma fold_max_ge_elem: "x \<in> set xs \<Longrightarrow> (x::nat) \<le> fold max xs a"
proof (induction xs arbitrary: a)
  case Nil
  then show ?case by simp
next
  case (Cons y ys)
  show ?case
  proof (cases "x = y")
    case True
    have "y \<le> max y a" by simp
    also have "\<dots> \<le> fold max ys (max y a)" by (rule fold_max_ge_init)
    finally show ?thesis using True by simp
  next
    case False
    with Cons.prems have "x \<in> set ys" by simp
    then show ?thesis using Cons.IH by simp
  qed
qed

lemma new_booking_id_fresh: "r \<in> set rows \<Longrightarrow> booking_id r < new_booking_id rows"
  unfolding new_booking_id_def
  using fold_max_ge_elem [of "booking_id r" "map booking_id rows" 0] by auto

lemma get_car_Some: "get_car d cid = Some c \<Longrightarrow> car_id c = cid \<and> c \<in> set (cars d)"
  unfolding get_car_def by (auto simp: find_Some_iff)

lemma get_booking_Some: "get_booking d bid = Some b \<Longrightarrow> booking_id b = bid \<and> b \<in> set (bookings d)"
  unfolding get_booking_def by (auto simp: find_Some_iff)

lemma get_booking_None: "get_booking d bid = None \<longleftrightarrow> (\<forall>b \<in> set (bookings d). booking_id b \<noteq> bid)"
  unfolding get_booking_def by (auto simp: find_None_iff)

section \<open>Facts about the availability check\<close>

lemma py_or_same_kind:
  "is_aware a = is_aware b \<Longrightarrow> is_aware a' = is_aware b' \<Longrightarrow>
     py_or (datetime_le a b) (datetime_ge a' b') = Inr (instant a \<le> instant b \<or> instant a' \<ge> instant b')"
  by (cases "instant a \<le> instant b") (simp_all add: datetime_le_def datetime_ge_def)

lemma is_car_available_loop_same_kind:
  assumes "\<forall>b \<in> set rows. is_aware (booking_end b) = is_aware start \<and>
                            is_aware (booking_start b) = is_aware end'"
  shows "is_car_available_loop rows start end' =
           Inr (\<forall>b \<in> set rows. instant (booking_end b) \<le> instant start \<or>
                                instant (booking_start b) \<ge> instant end')"
  using assms by (induction rows) (auto simp: py_or_same_kind)

lemma is_car_available_same_kind:
  assumes "\<forall>b \<in> set (bookings d).
             booking_car b = car_id c \<and>
             (booking_status b = ''pending'' \<or> booking_status b = ''confirmed'') \<longrightarrow>
             is_aware (booking_end b) = is_aware start \<and> is_aware (booking_start b) = is_aware end'"
  shows "is_car_available d c start end' =
           Inr (\<not> (\<exists>b \<in> set (bookings d).
                  booking_car b = car_id c \<and>
                  (booking_status b = ''pending'' \<or> booking_status b = ''confirmed'') \<and>
                  \<not> (instant (booking_end b) \<le> instant start \<or>
                     instant (booking_start b) \<ge> instant end')))"
proof -
  have "is_car_available d c start end' =
      Inr (\<forall>b \<in> set (conflicting_bookings d c).
             instant (booking_end b) \<le> instant start \<or> instant (booking_start b) \<ge> instant end')"
    unfolding is_car_available_def
    using assms by (intro is_car_available_loop_same_kind) (auto simp: conflicting_bookings_def)
  then show ?thesis
    by (auto simp: conflicting_bookings_def)
qed

lemma calculate_total_price_same_kind:
  "is_aware end' = is_aware start \<Longrightarrow>
     calculate_total_price c start end' =
       Inr (max ((instant end' - instant start) div 86400000000) 1 * price_per_day c)"
  by (simp add: calculate_total_price_def datetime_sub_def timedelta_days_def
      microseconds_per_day_def)

lemma calculate_total_price_Inr:
  "calculate_total_price c start end' = Inr price \<Longrightarrow>
     is_aware end' = is_aware start \<and>
     price = max ((instant end' - instant start) div 86400000000) 1 * price_per_day c"
  by (auto simp: calculate_total_price_def datetime_sub_def timedelta_days_def
      microseconds_per_day_def split: if_splits)

lemma decimal_fits_10: "decimal_fits 10 v \<longleftrightarrow> \<bar>v\<bar> < 10000000000"
  by (simp add: decimal_fits_def)

lemma create_booking_available:
  assumes "get_car d cid = Some c"
    and "is_car_available d c start end' = Inr True"
    and "is_aware end' = is_aware start"
    and "\<bar>max ((instant end' - instant start) div 86400000000) 1 * price_per_day c\<bar> < 10000000000"
  shows "create_booking d now user cid start end' =
           (Inr \<lparr>booking_id = new_booking_id (bookings d), booking_user = user, booking_car = cid,
                 booking_start = start, booking_end = end',
                 total_price = max ((instant end' - instant start) div 86400000000) 1 * price_per_day c,
                 booking_status = ''pending'', stripe_payment_intent = None,
                 booking_created_at = now\<rparr>,
            d\<lparr>bookings := bookings d @
               [\<lparr>booking_id = new_booking_id (bookings d), booking_user = user, booking_car = cid,
                 booking_start = start, booking_end = end',
                 total_price = max ((instant end' - instant start) div 86400000000) 1 * price_per_day c,
                 booking_status = ''pending'', stripe_payment_intent = None,
                 booking_created_at = now\<rparr>]\<rparr>)"
  using assms get_car_Some [OF assms(1)]
  by (simp add: create_booking_def booking_objects_create_def Let_def
      calculate_total_price_same_kind decimal_fits_10)

lemma create_booking_conflict:
  assumes "get_car d cid = Some c" and "is_car_available d c start end' = Inr False"
  shows "create_booking d now user cid start end' =
           (Inl (BookingConflictError ''Car not available for selected dates''), d)"
  using assms by (simp add: create_booking_def)

lemma create_booking_too_expensive:
  assumes "get_car d cid = Some c"
    and "is_car_available d c start end' = Inr True"
    and "is_aware end' = is_aware start"
    and "\<not> \<bar>max ((instant end' - instant start) div 86400000000) 1 * price_per_day c\<bar> < 10000000000"
  shows "create_booking d now user cid start end' = (Inl InvalidOperation, d)"
  using assms
  by (simp add: create_booking_def booking_objects_create_def calculate_total_price_same_kind
      decimal_fits_10)

lemma create_booking_Inr:
  assumes "create_booking d now user cid start end' = (Inr b, d')" and "get_car d cid = Some c"
  shows "is_car_available d c start end' = Inr True \<and>
         is_aware end' = is_aware start \<and>
         \<bar>max ((instant end' - instant start) div 86400000000) 1 * price_per_day c\<bar> < 10000000000"
  using assms
  by (auto simp: create_booking_def booking_objects_create_def Let_def decimal_fits_10
      dest: calculate_total_price_Inr split: sum.splits if_splits)

section \<open>Creating a booking\<close>

text \<open>
  Claim C1, as the claim states it, says that for an existing car and \<open>start < end\<close>
  the booking is created whenever no pending or confirmed booking of the car overlaps.
  A car at 999999.99 a day with no booking at all, requested for 101 days: the price has
  more than the ten digits of \<^verbatim>\<open>total_price\<close>, the insert is refused and no row is
  written. And a car whose only booking holds naive datetimes, requested with aware ones
  for a range that begins where that booking ends: the comparison raises
  \<^verbatim>\<open>TypeError\<close>.
\<close>

theorem create_booking_refused_without_conflict:
  "get_car \<lparr>cars = [sample_car\<lparr>price_per_day := 99999999\<rparr>], bookings = []\<rparr> 7 =
     Some (sample_car\<lparr>price_per_day := 99999999\<rparr>) \<and>
   instant (jan 1 0) < instant (jan 102 0) \<and>
   create_booking \<lparr>cars = [sample_car\<lparr>price_per_day := 99999999\<rparr>], bookings = []\<rparr>
     epoch 4 7 (jan 1 0) (jan 102 0) =
     (Inl InvalidOperation, \<lparr>cars = [sample_car\<lparr>price_per_day := 99999999\<rparr>], bookings = []\<rparr>) \<and>
   create_booking
     \<lparr>cars = [sample_car],
      bookings = [sample_booking ''pending'' (Naive (instant (jan 1 0))) (Naive (instant (jan 3 0)))]\<rparr>
     epoch 4 7 (jan 3 0) (jan 5 0) =
     (Inl (TypeError ''can't compare offset-naive and offset-aware datetimes''),
      \<lparr>cars = [sample_car],
       bookings = [sample_booking ''pending'' (Naive (instant (jan 1 0))) (Naive (instant (jan 3 0)))]\<rparr>)"
  by (simp add: create_booking_def get_car_def is_car_available_def conflicting_bookings_def
      calculate_total_price_def datetime_sub_def datetime_le_def datetime_ge_def
      timedelta_days_def microseconds_per_day_def booking_objects_create_def decimal_fits_def)

text \<open>
  Claim C1, amended. For an existing car and a requested range \<open>[start, end)\<close> whose
  two datetimes are of the same kind (both naive or both aware) as those of the car's
  pending and confirmed bookings, and whose price \<open>days * p\<close> has at most the ten digits
  of \<^verbatim>\<open>total_price\<close> (below 100000000.00), \<^verbatim>\<open>create_booking\<close> succeeds exactly when
  no booking of that car with status \<^verbatim>\<open>pending\<close> or \<^verbatim>\<open>confirmed\<close> overlaps the
  range, where a booking \<open>[s, e)\<close> overlaps it iff not (\<open>e \<le> start\<close> or
  \<open>s \<ge> end\<close>). On a conflict it raises \<^verbatim>\<open>BookingConflictError\<close> and the database
  is unchanged; otherwise it appends one new row, with a fresh key, status
  \<^verbatim>\<open>pending\<close> and the requested car, user and range. The condition reads only the
  status and the two bounds of each booking of the car, so a booking that ends at
  \<open>start\<close> or begins at \<open>end\<close> does not block, and neither does one whose status is
  \<^verbatim>\<open>cancelled\<close>, \<^verbatim>\<open>refunded\<close> or \<^verbatim>\<open>completed\<close>. The statement does not need
  \<open>start < end\<close>.
\<close>

theorem create_booking_iff_no_conflict:
  assumes "get_car d cid = Some c"
    and "is_aware end' = is_aware start"
    and "\<forall>b \<in> set (bookings d).
           booking_car b = cid \<and>
           (booking_status b = ''pending'' \<or> booking_status b = ''confirmed'') \<longrightarrow>
           is_aware (booking_start b) = is_aware start \<and> is_aware (booking_end b) = is_aware start"
    and "\<bar>max ((instant end' - instant start) div 86400000000) 1 * price_per_day c\<bar> < 10000000000"
  shows "if \<exists>b \<in> set (bookings d).
              booking_car b = cid \<and>
              (booking_status b = ''pending'' \<or> booking_status b = ''confirmed'') \<and>
              \<not> (instant (booking_end b) \<le> instant start \<or> instant (booking_start b) \<ge> instant end')
         then create_booking d now user cid start end' =
                (Inl (BookingConflictError ''Car not available for selected dates''), d)
         else \<exists>b. create_booking d now user cid start end' = (Inr b, d\<lparr>bookings := bookings d @ [b]\<rparr>) \<and>
                  booking_status b = ''pending'' \<and> booking_car b = cid \<and> booking_user b = user \<and>
                  booking_start b = start \<and> booking_end b = end' \<and>
                  (\<forall>r \<in> set (bookings d). booking_id r \<noteq> booking_id b)"
proof -
  define conflict where
    "conflict \<longleftrightarrow> (\<exists>b \<in> set (bookings d).
              booking_car b = cid \<and>
              (booking_status b = ''pending'' \<or> booking_status b = ''confirmed'') \<and>
              \<not> (instant (booking_end b) \<le> instant start \<or> instant (booking_start b) \<ge> instant end'))"
  from assms(1) have cid: "car_id c = cid" by (simp add: get_car_Some)
  have "is_car_available d c start end' =
           Inr (\<not> (\<exists>b \<in> set (bookings d).
                  booking_car b = car_id c \<and>
                  (booking_status b = ''pending'' \<or> booking_status b = ''confirmed'') \<and>
                  \<not> (instant (booking_end b) \<le> instant start \<or>
                     instant (booking_start b) \<ge> instant end')))"
    using assms(2,3) cid by (intro is_car_available_same_kind) auto
  then have avail: "is_car_available d c start end' = Inr (\<not> conflict)"
    unfolding cid conflict_def .
  have fresh: "\<forall>r \<in> set (bookings d). booking_id r \<noteq> new_booking_id (bookings d)"
    using new_booking_id_fresh by fastforce
  have yes: "create_booking d now user cid start end' =
          (Inl (BookingConflictError ''Car not available for selected dates''), d)"
    if conflict
    using that avail by (intro create_booking_conflict [OF assms(1)]) simp
  have no: "\<exists>b. create_booking d now user cid start end' = (Inr b, d\<lparr>bookings := bookings d @ [b]\<rparr>) \<and>
            booking_status b = ''pending'' \<and> booking_car b = cid \<and> booking_user b = user \<and>
            booking_start b = start \<and> booking_end b = end' \<and>
            (\<forall>r \<in> set (bookings d). booking_id r \<noteq> booking_id b)"
    if "\<not> conflict"
  proof -
    from that avail have "is_car_available d c start end' = Inr True" by simp
    from create_booking_available [OF assms(1) this assms(2) assms(4), of now user] fresh
    show ?thesis by simp
  qed
  show ?thesis
  proof (cases conflict)
    case True
    then have c: "\<exists>b \<in> set (bookings d).
              booking_car b = cid \<and>
              (booking_status b = ''pending'' \<or> booking_status b = ''confirmed'') \<and>
              \<not> (instant (booking_end b) \<le> instant start \<or> instant (booking_start b) \<ge> instant end')"
      unfolding conflict_def .
    show ?thesis using yes [OF True] by (simp only: c if_True)
  next
    case False
    then have c: "\<not> (\<exists>b \<in> set (bookings d).
              booking_car b = cid \<and>
              (booking_status b = ''pending'' \<or> booking_status b = ''confirmed'') \<and>
              \<not> (instant (booking_end b) \<le> instant start \<or> instant (booking_start b) \<ge> instant end'))"
      unfolding conflict_def .
    show ?thesis using no [OF False] by (simp only: c if_False)
  qed
qed

text \<open>
  At the sample car: booked \<open>[Jan 1, Jan 3)\<close>, a request for \<open>[Jan 3, Jan 5)\<close>
  succeeds; booked \<open>[Jan 1, Jan 5)\<close>, a request for \<open>[Jan 3, Jan 6)\<close> is refused.
\<close>

theorem create_booking_iff_no_conflict_witness:
  "get_car \<lparr>cars = [sample_car], bookings = [sample_booking ''pending'' (jan 1 0) (jan 3 0)]\<rparr> 7
     = Some sample_car \<and>
   (\<exists>b. fst (create_booking
            \<lparr>cars = [sample_car], bookings = [sample_booking ''pending'' (jan 1 0) (jan 3 0)]\<rparr>
            epoch 4 7 (jan 3 0) (jan 5 0)) = Inr b \<and> booking_status b = ''pending'') \<and>
   create_booking
     \<lparr>cars = [sample_car], bookings = [sample_booking ''pending'' (jan 1 0) (jan 5 0)]\<rparr>
     epoch 4 7 (jan 3 0) (jan 6 0) =
     (Inl (BookingConflictError ''Car not available for selected dates''),
      \<lparr>cars = [sample_car], bookings = [sample_booking ''pending'' (jan 1 0) (jan 5 0)]\<rparr>)"
proof -
  have car1: "get_car \<lparr>cars = [sample_car], bookings = [sample_booking ''pending'' (jan 1 0) (jan 3 0)]\<rparr> 7
     = Some sample_car"
    by (simp add: get_car_def)
  have car2: "get_car \<lparr>cars = [sample_car], bookings = [sample_booking ''pending'' (jan 1 0) (jan 5 0)]\<rparr> 7
     = Some sample_car"
    by (simp add: get_car_def)
  show ?thesis
    using car1
      create_booking_iff_no_conflict [OF car1, where start = "jan 3 0" and end' = "jan 5 0"
        and now = epoch and user = 4]
      create_booking_iff_no_conflict [OF car2, where start = "jan 3 0" and end' = "jan 6 0"
        and now = epoch and user = 4]
    by auto
qed

section \<open>Facts about saving\<close>

lemma find_map_replace:
  "find (\<lambda>r. booking_id r = k) (map (\<lambda>r. if booking_id r = booking_id b then b else r) rows) =
     (if k = booking_id b
      then (if \<exists>r \<in> set rows. booking_id r = booking_id b then Some b else None)
      else find (\<lambda>r. booking_id r = k) rows)"
  by (induction rows) auto

lemma find_append_one:
  "find P (rows @ [b]) = (case find P rows of Some r \<Rightarrow> Some r | None \<Rightarrow> if P b then Some b else None)"
  by (induction rows) auto

lemma get_booking_save_booking:
  "get_booking (save_booking b d) k = (if k = booking_id b then Some b else get_booking d k)"
proof (cases "\<exists>r \<in> set (bookings d). booking_id r = booking_id b")
  case True
  then show ?thesis
    by (simp add: get_booking_def save_booking_def find_map_replace)
next
  case False
  then have none: "find (\<lambda>r. booking_id r = booking_id b) (bookings d) = None"
    by (simp add: find_None_iff)
  show ?thesis
  proof (cases "k = booking_id b")
    case True
    with False none show ?thesis
      by (simp add: get_booking_def save_booking_def find_append_one)
  next
    case k: False
    with False show ?thesis
      by (auto simp: get_booking_def save_booking_def find_append_one split: option.splits)
  qed
qed

lemma cars_save_booking: "cars (save_booking b d) = cars d"
  by (simp add: save_booking_def)

lemma save_booking_other_rows:
  "booking_id r \<noteq> booking_id b \<Longrightarrow> r \<in> set (bookings (save_booking b d)) \<longleftrightarrow> r \<in> set (bookings d)"
  by (auto simp: save_booking_def)

section \<open>The price of a booking\<close>

text \<open>
  Claim C4. A booking created by \<^verbatim>\<open>create_booking\<close> with \<open>start < end\<close> on a car
  with daily price \<open>p\<close> is stored with total price \<open>days * p\<close>, where \<open>days\<close> is
  the larger of \<open>1\<close> and the number of whole days (of 86400000000 microseconds) in
  \<open>end - start\<close>. Prices are whole numbers of hundredths, so the product is exact to
  two decimal places. A booking shorter than 24 hours costs one day.
\<close>

theorem create_booking_total_price:
  assumes "create_booking d now user cid start end' = (Inr b, d')"
    and "get_car d cid = Some c"
    and "instant start < instant end'"
  shows "total_price b = max ((instant end' - instant start) div 86400000000) 1 * price_per_day c \<and>
         (instant end' - instant start < 86400000000 \<longrightarrow> total_price b = price_per_day c) \<and>
         get_booking d' (booking_id b) = Some b"
proof -
  note facts = create_booking_Inr [OF assms(1,2)]
  note eq = create_booking_available [OF assms(2) facts [THEN conjunct1]
      facts [THEN conjunct2, THEN conjunct1] facts [THEN conjunct2, THEN conjunct2], of now user]
  from assms(1) eq
  have price: "total_price b = max ((instant end' - instant start) div 86400000000) 1 * price_per_day c"
    by auto
  have short: "(instant end' - instant start) div 86400000000 = 0"
    if "instant end' - instant start < 86400000000"
    using that assms(3) by simp
  from assms(1) eq have d': "d' = d\<lparr>bookings := bookings d @ [b]\<rparr>" and
    bid: "booking_id b = new_booking_id (bookings d)"
    by auto
  have "find (\<lambda>r. booking_id r = booking_id b) (bookings d) = None"
    unfolding bid using new_booking_id_fresh by (fastforce simp: find_None_iff)
  then have "get_booking d' (booking_id b) = Some b"
    by (simp add: d' get_booking_def find_append_one)
  with price short show ?thesis by auto
qed

text \<open>
  The car at 50.00 a day: booked from 10:00 on January 1 to 10:00 on January 2 it costs
  50.00, and booked from 10:00 to 14:00 on January 1 it costs 50.00 as well.
\<close>

theorem create_booking_total_price_witness:
  "create_booking \<lparr>cars = [sample_car], bookings = []\<rparr> epoch 4 7 (jan 1 10) (jan 2 10) =
     (Inr \<lparr>booking_id = 1, booking_user = 4, booking_car = 7, booking_start = jan 1 10,
           booking_end = jan 2 10, total_price = 5000, booking_status = ''pending'',
           stripe_payment_intent = None, booking_created_at = epoch\<rparr>,
      \<lparr>cars = [sample_car],
       bookings = [\<lparr>booking_id = 1, booking_user = 4, booking_car = 7, booking_start = jan 1 10,
           booking_end = jan 2 10, total_price = 5000, booking_status = ''pending'',
           stripe_payment_intent = None, booking_created_at = epoch\<rparr>]\<rparr>) \<and>
   create_booking \<lparr>cars = [sample_car], bookings = []\<rparr> epoch 4 7 (jan 1 10) (jan 1 14) =
     (Inr \<lparr>booking_id = 1, booking_user = 4, booking_car = 7, booking_start = jan 1 10,
           booking_end = jan 1 14, total_price = 5000, booking_status = ''pending'',
           stripe_payment_intent = None, booking_created_at = epoch\<rparr>,
      \<lparr>cars = [sample_car],
       bookings = [\<lparr>booking_id = 1, booking_user = 4, booking_car = 7, booking_start = jan 1 10,
           booking_end = jan 1 14, total_price = 5000, booking_status = ''pending'',
           stripe_payment_intent = None, booking_created_at = epoch\<rparr>]\<rparr>) \<and>
   get_car \<lparr>cars = [sample_car], bookings = []\<rparr> 7 = Some sample_car \<and>
   instant (jan 1 10) < instant (jan 2 10) \<and> instant (jan 1 10) < instant (jan 1 14) \<and>
   (5000 :: int) =
     max ((instant (jan 2 10) - instant (jan 1 10)) div 86400000000) 1 * price_per_day sample_car \<and>
   (5000 :: int) =
     max ((instant (jan 1 14) - instant (jan 1 10)) div 86400000000) 1 * price_per_day sample_car"
proof -
  have car: "get_car \<lparr>cars = [sample_car], bookings = []\<rparr> 7 = Some sample_car"
    by (simp add: get_car_def)
  have run1: "create_booking \<lparr>cars = [sample_car], bookings = []\<rparr> epoch 4 7 (jan 1 10) (jan 2 10) =
     (Inr \<lparr>booking_id = 1, booking_user = 4, booking_car = 7, booking_start = jan 1 10,
           booking_end = jan 2 10, total_price = 5000, booking_status = ''pending'',
           stripe_payment_intent = None, booking_created_at = epoch\<rparr>,
      \<lparr>cars = [sample_car],
       bookings = [\<lparr>booking_id = 1, booking_user = 4, booking_car = 7, booking_start = jan 1 10,
           booking_end = jan 2 10, total_price = 5000, booking_status = ''pending'',
           stripe_payment_intent = None, booking_created_at = epoch\<rparr>]\<rparr>)"
    by (simp add: create_booking_def get_car_def is_car_available_def conflicting_bookings_def
        calculate_total_price_def datetime_sub_def timedelta_days_def microseconds_per_day_def
        booking_objects_create_def decimal_fits_def new_booking_id_def Let_def)
  have run2: "create_booking \<lparr>cars = [sample_car], bookings = []\<rparr> epoch 4 7 (jan 1 10) (jan 1 14) =
     (Inr \<lparr>booking_id = 1, booking_user = 4, booking_car = 7, booking_start = jan 1 10,
           booking_end = jan 1 14, total_price = 5000, booking_status = ''pending'',
           stripe_payment_intent = None, booking_created_at = epoch\<rparr>,
      \<lparr>cars = [sample_car],
       bookings = [\<lparr>booking_id = 1, booking_user = 4, booking_car = 7, booking_start = jan 1 10,
           booking_end = jan 1 14, total_price = 5000, booking_status = ''pending'',
           stripe_payment_intent = None, booking_created_at = epoch\<rparr>]\<rparr>)"
    by (simp add: create_booking_def get_car_def is_car_available_def conflicting_bookings_def
        calculate_total_price_def datetime_sub_def timedelta_days_def microseconds_per_day_def
        booking_objects_create_def decimal_fits_def new_booking_id_def Let_def)
  have lt1: "instant (jan 1 10) < instant (jan 2 10)"
    and lt2: "instant (jan 1 10) < instant (jan 1 14)" by simp_all
  show ?thesis
    using run1 run2 car lt1 lt2
      create_booking_total_price [OF run1 car lt1]
      create_booking_total_price [OF run2 car lt2]
    by simp
qed

section \<open>Cancelling a booking\<close>

text \<open>
  Claim C5. \<^verbatim>\<open>cancel_booking\<close> succeeds exactly when the booking's status is
  \<^verbatim>\<open>pending\<close> or \<^verbatim>\<open>confirmed\<close>. Then the status becomes \<^verbatim>\<open>cancelled\<close>, on the
  instance and in its row, no other field of the booking changes, and no other row and
  no car changes. From any other status it raises the \<^verbatim>\<open>ValueError\<close> with the message
  \<^verbatim>\<open>Cannot cancel booking in current status\<close> (the invalid-transition error of the
  service), and the instance and the database are as before.
\<close>

theorem cancel_booking_iff_cancellable:
  "case cancel_booking d b of (result, b', d') \<Rightarrow>
     if booking_status b = ''pending'' \<or> booking_status b = ''confirmed''
     then result = Inr () \<and>
          b' = b\<lparr>booking_status := ''cancelled''\<rparr> \<and>
          get_booking d' (booking_id b) = Some b' \<and>
          (\<forall>k. k \<noteq> booking_id b \<longrightarrow> get_booking d' k = get_booking d k) \<and>
          cars d' = cars d
     else result = Inl (ValueError ''Cannot cancel booking in current status'') \<and>
          b' = b \<and> d' = d"
  by (simp add: cancel_booking_def Let_def get_booking_save_booking cars_save_booking)

text \<open>A completed booking cannot be cancelled; a confirmed one can.\<close>

theorem cancel_booking_iff_cancellable_witness:
  "cancel_booking \<lparr>cars = [sample_car], bookings = [sample_booking ''completed'' (jan 1 0) (jan 3 0)]\<rparr>
     (sample_booking ''completed'' (jan 1 0) (jan 3 0)) =
     (Inl (ValueError ''Cannot cancel booking in current status''),
      sample_booking ''completed'' (jan 1 0) (jan 3 0),
      \<lparr>cars = [sample_car], bookings = [sample_booking ''completed'' (jan 1 0) (jan 3 0)]\<rparr>) \<and>
   fst (cancel_booking \<lparr>cars = [sample_car], bookings = [sample_booking ''confirmed'' (jan 1 0) (jan 3 0)]\<rparr>
     (sample_booking ''confirmed'' (jan 1 0) (jan 3 0))) = Inr () \<and>
   get_booking (snd (snd (cancel_booking \<lparr>cars = [sample_car], bookings = [sample_booking ''confirmed'' (jan 1 0) (jan 3 0)]\<rparr>
     (sample_booking ''confirmed'' (jan 1 0) (jan 3 0))))) 1 = Some (sample_booking ''cancelled'' (jan 1 0) (jan 3 0))"
  using
    cancel_booking_iff_cancellable [where
      d = "\<lparr>cars = [sample_car], bookings = [sample_booking ''completed'' (jan 1 0) (jan 3 0)]\<rparr>"
      and b = "sample_booking ''completed'' (jan 1 0) (jan 3 0)"]
    cancel_booking_iff_cancellable [where
      d = "\<lparr>cars = [sample_car], bookings = [sample_booking ''confirmed'' (jan 1 0) (jan 3 0)]\<rparr>"
      and b = "sample_booking ''confirmed'' (jan 1 0) (jan 3 0)"]
  by (auto split: prod.splits)

section \<open>Payment intents\<close>

text \<open>
  Claim C6. \<^verbatim>\<open>create_payment_intent\<close> succeeds exactly when the booking's status is
  \<^verbatim>\<open>pending\<close>; otherwise it raises the \<^verbatim>\<open>ValueError\<close> with the message
  \<^verbatim>\<open>Booking is not in pending state\<close> (the invalid-state error of the service) and
  changes nothing. On success it stores the gateway's intent id on the booking and in
  its row, returns the gateway's client secret (with the intent id), and leaves the status
  \<^verbatim>\<open>pending\<close> and every other row as it was. A second call for the same booking, to
  which the gateway answers with another intent, succeeds again and replaces the stored
  reference by the new intent id. The gateway is any function that answers the request.
\<close>

theorem create_payment_intent_iff_pending:
  fixes stripe stripe' :: gateway
  shows
  "case create_payment_intent stripe d b of (result, b', d') \<Rightarrow>
     if booking_status b = ''pending''
     then result = Inr \<lparr>data_client_secret = client_secret (stripe (total_price b) ''usd'' (booking_id b)),
                        data_intent_id = intent_id (stripe (total_price b) ''usd'' (booking_id b))\<rparr> \<and>
          b' = b\<lparr>stripe_payment_intent := Some (intent_id (stripe (total_price b) ''usd'' (booking_id b)))\<rparr> \<and>
          booking_status b' = ''pending'' \<and>
          get_booking d' (booking_id b) = Some b' \<and>
          (\<forall>k. k \<noteq> booking_id b \<longrightarrow> get_booking d' k = get_booking d k) \<and>
          cars d' = cars d \<and>
          (case create_payment_intent stripe' d' b' of (result2, b2, d2) \<Rightarrow>
             result2 = Inr \<lparr>data_client_secret = client_secret (stripe' (total_price b) ''usd'' (booking_id b)),
                            data_intent_id = intent_id (stripe' (total_price b) ''usd'' (booking_id b))\<rparr> \<and>
             b2 = b\<lparr>stripe_payment_intent := Some (intent_id (stripe' (total_price b) ''usd'' (booking_id b)))\<rparr> \<and>
             get_booking d2 (booking_id b) = Some b2)
     else result = Inl (ValueError ''Booking is not in pending state'') \<and> b' = b \<and> d' = d"
  by (simp add: create_payment_intent_def Let_def get_booking_save_booking cars_save_booking)

text \<open>
  A pending booking gets the reference \<open>pi_1\<close>, then \<open>pi_2\<close> on the second call; a
  confirmed booking is refused.
\<close>

theorem create_payment_intent_iff_pending_witness:
  "create_payment_intent (sample_gateway ''pi_1'' ''cs_1'')
     \<lparr>cars = [sample_car], bookings = [sample_booking ''pending'' (jan 1 0) (jan 3 0)]\<rparr>
     (sample_booking ''pending'' (jan 1 0) (jan 3 0)) =
     (Inr \<lparr>data_client_secret = ''cs_1'', data_intent_id = ''pi_1''\<rparr>,
      (sample_booking ''pending'' (jan 1 0) (jan 3 0))\<lparr>stripe_payment_intent := Some ''pi_1''\<rparr>,
      \<lparr>cars = [sample_car],
       bookings = [(sample_booking ''pending'' (jan 1 0) (jan 3 0))\<lparr>stripe_payment_intent := Some ''pi_1''\<rparr>]\<rparr>) \<and>
   create_payment_intent (sample_gateway ''pi_1'' ''cs_1'')
     \<lparr>cars = [sample_car], bookings = [sample_booking ''confirmed'' (jan 1 0) (jan 3 0)]\<rparr>
     (sample_booking ''confirmed'' (jan 1 0) (jan 3 0)) =
     (Inl (ValueError ''Booking is not in pending state''),
      sample_booking ''confirmed'' (jan 1 0) (jan 3 0),
      \<lparr>cars = [sample_car], bookings = [sample_booking ''confirmed'' (jan 1 0) (jan 3 0)]\<rparr>) \<and>
   create_payment_intent (sample_gateway ''pi_2'' ''cs_2'')
     \<lparr>cars = [sample_car],
      bookings = [(sample_booking ''pending'' (jan 1 0) (jan 3 0))\<lparr>stripe_payment_intent := Some ''pi_1''\<rparr>]\<rparr>
     ((sample_booking ''pending'' (jan 1 0) (jan 3 0))\<lparr>stripe_payment_intent := Some ''pi_1''\<rparr>) =
     (Inr \<lparr>data_client_secret = ''cs_2'', data_intent_id = ''pi_2''\<rparr>,
      (sample_booking ''pending'' (jan 1 0) (jan 3 0))\<lparr>stripe_payment_intent := Some ''pi_2''\<rparr>,
      \<lparr>cars = [sample_car],
       bookings = [(sample_booking ''pending'' (jan 1 0) (jan 3 0))\<lparr>stripe_payment_intent := Some ''pi_2''\<rparr>]\<rparr>)"
proof -
  have second: "create_payment_intent (sample_gateway ''pi_2'' ''cs_2'')
     \<lparr>cars = [sample_car],
      bookings = [(sample_booking ''pending'' (jan 1 0) (jan 3 0))\<lparr>stripe_payment_intent := Some ''pi_1''\<rparr>]\<rparr>
     ((sample_booking ''pending'' (jan 1 0) (jan 3 0))\<lparr>stripe_payment_intent := Some ''pi_1''\<rparr>) =
     (Inr \<lparr>data_client_secret = ''cs_2'', data_intent_id = ''pi_2''\<rparr>,
      (sample_booking ''pending'' (jan 1 0) (jan 3 0))\<lparr>stripe_payment_intent := Some ''pi_2''\<rparr>,
      \<lparr>cars = [sample_car],
       bookings = [(sample_booking ''pending'' (jan 1 0) (jan 3 0))\<lparr>stripe_payment_intent := Some ''pi_2''\<rparr>]\<rparr>)"
    by (simp add: create_payment_intent_def save_booking_def Let_def)
  have first: "create_payment_intent (sample_gateway ''pi_1'' ''cs_1'')
     \<lparr>cars = [sample_car], bookings = [sample_booking ''pending'' (jan 1 0) (jan 3 0)]\<rparr>
     (sample_booking ''pending'' (jan 1 0) (jan 3 0)) =
     (Inr \<lparr>data_client_secret = ''cs_1'', data_intent_id = ''pi_1''\<rparr>,
      (sample_booking ''pending'' (jan 1 0) (jan 3 0))\<lparr>stripe_payment_intent := Some ''pi_1''\<rparr>,
      \<lparr>cars = [sample_car],
       bookings = [(sample_booking ''pending'' (jan 1 0) (jan 3 0))\<lparr>stripe_payment_intent := Some ''pi_1''\<rparr>]\<rparr>)"
    by (simp add: create_payment_intent_def save_booking_def Let_def)
  show ?thesis
    using first second
      create_payment_intent_iff_pending [where
        stripe = "sample_gateway ''pi_1'' ''cs_1''" and stripe' = "sample_gateway ''pi_2'' ''cs_2''"
        and d = "\<lparr>cars = [sample_car], bookings = [sample_booking ''confirmed'' (jan 1 0) (jan 3 0)]\<rparr>"
        and b = "sample_booking ''confirmed'' (jan 1 0) (jan 3 0)"]
    by (auto split: prod.splits)
qed

section \<open>The car's own flags\<close>

lemma find_map_car_flags:
  "find (\<lambda>c. car_id c = cid) (map (\<lambda>r. r\<lparr>car_status := st r, is_active := act r\<rparr>) rows) =
     map_option (\<lambda>r. r\<lparr>car_status := st r, is_active := act r\<rparr>) (find (\<lambda>c. car_id c = cid) rows)"
  by (induction rows) auto

text \<open>
  Claim C9, as the claim states it, says that for every existing car, whatever its flags,
  the booking is created when no pending or confirmed booking overlaps. A car under
  maintenance and inactive, at 999999.99 a day and with no booking at all, requested for
  101 days: the price has more than the ten digits of \<^verbatim>\<open>total_price\<close>, the insert
  is refused and no row is written.
\<close>

theorem create_booking_maintenance_car_refused:
  "get_car
     \<lparr>cars = [sample_car\<lparr>price_per_day := 99999999, car_status := ''maintenance'', is_active := False\<rparr>],
      bookings = []\<rparr> 7 =
     Some (sample_car\<lparr>price_per_day := 99999999, car_status := ''maintenance'', is_active := False\<rparr>) \<and>
   create_booking
     \<lparr>cars = [sample_car\<lparr>price_per_day := 99999999, car_status := ''maintenance'', is_active := False\<rparr>],
      bookings = []\<rparr>
     epoch 4 7 (jan 1 0) (jan 102 0) =
     (Inl InvalidOperation,
      \<lparr>cars = [sample_car\<lparr>price_per_day := 99999999, car_status := ''maintenance'', is_active := False\<rparr>],
       bookings = []\<rparr>)"
  by (simp add: create_booking_def get_car_def is_car_available_def conflicting_bookings_def
      calculate_total_price_def datetime_sub_def timedelta_days_def microseconds_per_day_def
      booking_objects_create_def decimal_fits_def)

text \<open>
  Claim C9, amended. \<^verbatim>\<open>create_booking\<close> reads neither the car's \<^verbatim>\<open>status\<close> nor its
  \<^verbatim>\<open>is_active\<close> flag: setting these two fields of every car to arbitrary values
  changes neither its result nor the bookings it stores. So for an existing car, whatever
  its status and whether or not it is active, the booking is created with status
  \<^verbatim>\<open>pending\<close> and the requested car, user and range whenever no pending or confirmed
  booking of the car overlaps the range, the datetimes of the request are of the same
  kind as those of the car's pending and confirmed bookings, and the price has at most
  the ten digits of \<^verbatim>\<open>total_price\<close>.
\<close>

theorem create_booking_ignores_car_flags:
  "fst (create_booking (d\<lparr>cars := map (\<lambda>r. r\<lparr>car_status := st r, is_active := act r\<rparr>) (cars d)\<rparr>)
          now user cid start end') =
     fst (create_booking d now user cid start end') \<and>
   bookings (snd (create_booking (d\<lparr>cars := map (\<lambda>r. r\<lparr>car_status := st r, is_active := act r\<rparr>) (cars d)\<rparr>)
          now user cid start end')) =
     bookings (snd (create_booking d now user cid start end')) \<and>
   (get_car d cid = Some c \<longrightarrow>
    is_aware end' = is_aware start \<longrightarrow>
    (\<forall>b \<in> set (bookings d).
        booking_car b = cid \<and>
        (booking_status b = ''pending'' \<or> booking_status b = ''confirmed'') \<longrightarrow>
        is_aware (booking_start b) = is_aware start \<and> is_aware (booking_end b) = is_aware start) \<longrightarrow>
    \<bar>max ((instant end' - instant start) div 86400000000) 1 * price_per_day c\<bar> < 10000000000 \<longrightarrow>
    \<not> (\<exists>b \<in> set (bookings d).
          booking_car b = cid \<and>
          (booking_status b = ''pending'' \<or> booking_status b = ''confirmed'') \<and>
          \<not> (instant (booking_end b) \<le> instant start \<or> instant (booking_start b) \<ge> instant end')) \<longrightarrow>
    (\<exists>b. create_booking d now user cid start end' = (Inr b, d\<lparr>bookings := bookings d @ [b]\<rparr>) \<and>
         booking_status b = ''pending'' \<and> booking_car b = cid \<and> booking_user b = user \<and>
         booking_start b = start \<and> booking_end b = end'))"
proof -
  define d2 where "d2 = d\<lparr>cars := map (\<lambda>r. r\<lparr>car_status := st r, is_active := act r\<rparr>) (cars d)\<rparr>"
  have car2: "get_car d2 cid = map_option (\<lambda>r. r\<lparr>car_status := st r, is_active := act r\<rparr>) (get_car d cid)"
    by (simp add: d2_def get_car_def find_map_car_flags)
  have avail2: "is_car_available d2 (r\<lparr>car_status := s, is_active := a\<rparr>) start end' =
      is_car_available d r start end'" for r s a
    by (simp add: d2_def is_car_available_def conflicting_bookings_def)
  have price2: "calculate_total_price (r\<lparr>car_status := s, is_active := a\<rparr>) start end' =
      calculate_total_price r start end'" for r s a
    by (simp add: calculate_total_price_def Let_def split: sum.splits)
  have bk2: "bookings d2 = bookings d" by (simp add: d2_def)
  have create2: "fst (booking_objects_create d2 now user (r\<lparr>car_status := s, is_active := a\<rparr>) start end' p) =
        fst (booking_objects_create d now user r start end' p) \<and>
      bookings (snd (booking_objects_create d2 now user (r\<lparr>car_status := s, is_active := a\<rparr>) start end' p)) =
        bookings (snd (booking_objects_create d now user r start end' p))" for r s a p
    by (simp add: booking_objects_create_def bk2 Let_def)
  have same: "fst (create_booking d2 now user cid start end') = fst (create_booking d now user cid start end') \<and>
      bookings (snd (create_booking d2 now user cid start end')) =
      bookings (snd (create_booking d now user cid start end'))"
    by (cases "get_car d cid")
      (simp_all add: create_booking_def car2 avail2 price2 bk2 create2 split: sum.splits)
  have created: "\<exists>b. create_booking d now user cid start end' = (Inr b, d\<lparr>bookings := bookings d @ [b]\<rparr>) \<and>
         booking_status b = ''pending'' \<and> booking_car b = cid \<and> booking_user b = user \<and>
         booking_start b = start \<and> booking_end b = end'"
    if car: "get_car d cid = Some c"
      and kind: "is_aware end' = is_aware start"
      and kinds: "\<forall>b \<in> set (bookings d).
        booking_car b = cid \<and>
        (booking_status b = ''pending'' \<or> booking_status b = ''confirmed'') \<longrightarrow>
        is_aware (booking_start b) = is_aware start \<and> is_aware (booking_end b) = is_aware start"
      and fits: "\<bar>max ((instant end' - instant start) div 86400000000) 1 * price_per_day c\<bar> < 10000000000"
      and free: "\<not> (\<exists>b \<in> set (bookings d).
          booking_car b = cid \<and>
          (booking_status b = ''pending'' \<or> booking_status b = ''confirmed'') \<and>
          \<not> (instant (booking_end b) \<le> instant start \<or> instant (booking_start b) \<ge> instant end'))"
  proof -
    from car have cid: "car_id c = cid" by (simp add: get_car_Some)
    have "is_car_available d c start end' =
           Inr (\<not> (\<exists>b \<in> set (bookings d).
                  booking_car b = car_id c \<and>
                  (booking_status b = ''pending'' \<or> booking_status b = ''confirmed'') \<and>
                  \<not> (instant (booking_end b) \<le> instant start \<or>
                     instant (booking_start b) \<ge> instant end')))"
      using kind kinds cid by (intro is_car_available_same_kind) auto
    with free have "is_car_available d c start end' = Inr True"
      unfolding cid by simp
    from create_booking_available [OF car this kind fits, of now user] show ?thesis by simp
  qed
  from same created show ?thesis unfolding d2_def by blast
qed

text \<open>
  A car under maintenance and inactive, for which \<^verbatim>\<open>is_available_for_booking\<close> is
  false, is booked all the same.
\<close>

theorem create_booking_ignores_car_flags_witness:
  "\<not> is_available_for_booking (sample_car\<lparr>car_status := ''maintenance'', is_active := False\<rparr>) \<and>
   get_car \<lparr>cars = [sample_car\<lparr>car_status := ''maintenance'', is_active := False\<rparr>], bookings = []\<rparr> 7 =
     Some (sample_car\<lparr>car_status := ''maintenance'', is_active := False\<rparr>) \<and>
   (\<exists>b. create_booking
          \<lparr>cars = [sample_car\<lparr>car_status := ''maintenance'', is_active := False\<rparr>], bookings = []\<rparr>
          epoch 4 7 (jan 1 0) (jan 3 0) =
        (Inr b, \<lparr>cars = [sample_car\<lparr>car_status := ''maintenance'', is_active := False\<rparr>], bookings = [b]\<rparr>) \<and>
        booking_status b = ''pending'' \<and> booking_car b = 7 \<and> booking_user b = 4 \<and>
        booking_start b = jan 1 0 \<and> booking_end b = jan 3 0)"
  using create_booking_ignores_car_flags [where
      d = "\<lparr>cars = [sample_car\<lparr>car_status := ''maintenance'', is_active := False\<rparr>], bookings = []\<rparr>"
      and cid = 7 and c = "sample_car\<lparr>car_status := ''maintenance'', is_active := False\<rparr>"
      and now = epoch and user = 4 and start = "jan 1 0" and end' = "jan 3 0"]
  by (simp add: get_car_def is_available_for_booking_def)

section \<open>Payment webhooks\<close>

text \<open>
  What the success handler does in each case: an event without a booking reference, or
  naming a booking that does not exist, changes nothing; the handler never raises; and a
  second delivery of the same event gives the same result and database as the first.
\<close>

lemma handle_payment_success_not_found:
  "get_booking d bid = None \<Longrightarrow> metadata_booking_id pi = Some bid \<Longrightarrow>
     handle_payment_success d pi = (Inr (), d)"
  by (simp add: handle_payment_success_def)

lemma handle_payment_success_no_reference:
  "metadata_booking_id pi = None \<Longrightarrow> handle_payment_success d pi = (Inr (), d)"
  by (simp add: handle_payment_success_def)

lemma handle_payment_success_never_raises: "fst (handle_payment_success d pi) = Inr ()"
  by (simp add: handle_payment_success_def split: option.splits)

lemma save_booking_twice: "save_booking b (save_booking b d) = save_booking b d"
proof (cases "\<exists>r \<in> set (bookings d). booking_id r = booking_id b")
  case True
  then have "\<exists>r \<in> set (bookings (save_booking b d)). booking_id r = booking_id b"
    by (auto simp: save_booking_def)
  with True show ?thesis
    by (auto simp: save_booking_def)
next
  case False
  then have "map (\<lambda>r. if booking_id r = booking_id b then b else r) (bookings d) = bookings d"
    by (intro map_idI) auto
  with False show ?thesis
    by (simp add: save_booking_def)
qed

lemma handle_payment_success_redelivery:
  "handle_payment_success (snd (handle_payment_success d pi)) pi = handle_payment_success d pi"
proof (cases "metadata_booking_id pi")
  case None
  then show ?thesis by (simp add: handle_payment_success_def)
next
  case (Some bid)
  show ?thesis
  proof (cases "get_booking d bid")
    case None
    with Some show ?thesis by (simp add: handle_payment_success_def)
  next
    case (Some b)
    then have "booking_id b = bid" by (simp add: get_booking_Some)
    with Some \<open>metadata_booking_id pi = Some bid\<close> show ?thesis
      by (simp add: handle_payment_success_def get_booking_save_booking save_booking_twice)
  qed
qed

text \<open>
  Claim C10. The success handler finds the booking through the event's metadata
  \<^verbatim>\<open>booking_id\<close> alone. For any existing booking \<open>b\<close> named by the event, whatever
  \<open>b\<close>'s stored \<^verbatim>\<open>stripe_payment_intent\<close> (null or not) and whatever the event's
  intent id, the handler saves \<open>b\<close> with status \<^verbatim>\<open>confirmed\<close>; and changing the
  event's intent id to any other value changes nothing in what the handler does.
\<close>

theorem handle_payment_success_by_booking_id_only:
  assumes "get_booking d bid = Some b" and "metadata_booking_id pi = Some bid"
  shows "handle_payment_success d pi = (Inr (), save_booking (b\<lparr>booking_status := ''confirmed''\<rparr>) d) \<and>
         get_booking (snd (handle_payment_success d pi)) bid = Some (b\<lparr>booking_status := ''confirmed''\<rparr>) \<and>
         handle_payment_success d (pi\<lparr>intent_id := other\<rparr>) = handle_payment_success d pi"
proof -
  from assms(1) have "booking_id b = bid" by (simp add: get_booking_Some)
  with assms show ?thesis
    by (simp add: handle_payment_success_def get_booking_save_booking)
qed

text \<open>
  A booking for which no payment intent was ever created (stored reference null) is
  confirmed by an event carrying an intent id the service never stored.
\<close>

theorem handle_payment_success_by_booking_id_only_witness:
  "get_booking \<lparr>cars = [sample_car], bookings = [sample_booking ''pending'' (jan 1 0) (jan 3 0)]\<rparr> 1 =
     Some (sample_booking ''pending'' (jan 1 0) (jan 3 0)) \<and>
   stripe_payment_intent (sample_booking ''pending'' (jan 1 0) (jan 3 0)) = None \<and>
   handle_payment_success
     \<lparr>cars = [sample_car], bookings = [sample_booking ''pending'' (jan 1 0) (jan 3 0)]\<rparr>
     \<lparr>intent_id = ''pi_never_issued'', client_secret = ''cs'', metadata_booking_id = Some 1\<rparr> =
     (Inr (), \<lparr>cars = [sample_car], bookings = [sample_booking ''confirmed'' (jan 1 0) (jan 3 0)]\<rparr>)"
proof -
  have found: "get_booking \<lparr>cars = [sample_car], bookings = [sample_booking ''pending'' (jan 1 0) (jan 3 0)]\<rparr> 1 =
     Some (sample_booking ''pending'' (jan 1 0) (jan 3 0))"
    by (simp add: get_booking_def)
  have meta: "metadata_booking_id \<lparr>intent_id = ''pi_never_issued'', client_secret = ''cs'', metadata_booking_id = Some 1\<rparr> = Some 1"
    by simp
  show ?thesis
    using found handle_payment_success_by_booking_id_only [OF found meta]
    by (simp add: save_booking_def)
qed

text \<open>
  Claim C2. The claim wants a success event for a booking that is found but not
  \<^verbatim>\<open>pending\<close> to leave the status alone. The handler does not test the status: it
  assigns \<^verbatim>\<open>confirmed\<close> to whatever booking it finds. Here the event names a
  \<^verbatim>\<open>cancelled\<close> booking, and the booking ends \<^verbatim>\<open>confirmed\<close>.
\<close>

theorem handle_payment_success_confirms_cancelled:
  "handle_payment_success
     \<lparr>cars = [sample_car], bookings = [sample_booking ''cancelled'' (jan 1 0) (jan 3 0)]\<rparr>
     \<lparr>intent_id = ''pi_1'', client_secret = ''cs_1'', metadata_booking_id = Some 1\<rparr> =
     (Inr (), \<lparr>cars = [sample_car], bookings = [sample_booking ''confirmed'' (jan 1 0) (jan 3 0)]\<rparr>)"
  by (simp add: handle_payment_success_def get_booking_def save_booking_def)

section \<open>Terminal states\<close>

text \<open>
  \<^verbatim>\<open>cancel_booking\<close> and \<^verbatim>\<open>create_payment_intent\<close> refuse a booking whose status is
  \<^verbatim>\<open>cancelled\<close>, \<^verbatim>\<open>refunded\<close> or \<^verbatim>\<open>completed\<close>, and leave it as it is.
\<close>

lemma cancel_booking_keeps_terminal:
  "booking_status b \<in> {''cancelled'', ''refunded'', ''completed''} \<Longrightarrow>
     cancel_booking d b = (Inl (ValueError ''Cannot cancel booking in current status''), b, d)"
  by (auto simp: cancel_booking_def)

lemma create_payment_intent_keeps_terminal:
  "booking_status b \<in> {''cancelled'', ''refunded'', ''completed''} \<Longrightarrow>
     create_payment_intent stripe d b = (Inl (ValueError ''Booking is not in pending state''), b, d)"
  by (auto simp: create_payment_intent_def)

text \<open>
  Claim C3. The claim wants no operation to change the status of a booking that is
  \<^verbatim>\<open>cancelled\<close>, \<^verbatim>\<open>refunded\<close> or \<^verbatim>\<open>completed\<close>. Webhook handling does: a
  \<^verbatim>\<open>payment_intent.succeeded\<close> event naming a \<^verbatim>\<open>completed\<close> booking, or a
  \<^verbatim>\<open>refunded\<close> one, sets its status to \<^verbatim>\<open>confirmed\<close>.
\<close>

theorem webhook_moves_terminal_booking:
  "handle_webhook_event
     \<lparr>cars = [sample_car], bookings = [sample_booking ''completed'' (jan 1 0) (jan 3 0)]\<rparr>
     \<lparr>event_type = ''payment_intent.succeeded'',
      event_object = \<lparr>intent_id = ''pi_1'', client_secret = ''cs_1'', metadata_booking_id = Some 1\<rparr>\<rparr> =
     (Inr (), \<lparr>cars = [sample_car], bookings = [sample_booking ''confirmed'' (jan 1 0) (jan 3 0)]\<rparr>) \<and>
   handle_webhook_event
     \<lparr>cars = [sample_car], bookings = [sample_booking ''refunded'' (jan 1 0) (jan 3 0)]\<rparr>
     \<lparr>event_type = ''payment_intent.succeeded'',
      event_object = \<lparr>intent_id = ''pi_1'', client_secret = ''cs_1'', metadata_booking_id = Some 1\<rparr>\<rparr> =
     (Inr (), \<lparr>cars = [sample_car], bookings = [sample_booking ''confirmed'' (jan 1 0) (jan 3 0)]\<rparr>)"
  by (simp add: handle_webhook_event_def handle_payment_success_def get_booking_def save_booking_def)

section \<open>The car's status after a booking changes\<close>

lemma find_map_replace_car:
  "find (\<lambda>r. car_id r = k) (map (\<lambda>r. if car_id r = car_id c then c else r) rows) =
     (if k = car_id c
      then (if \<exists>r \<in> set rows. car_id r = car_id c then Some c else None)
      else find (\<lambda>r. car_id r = k) rows)"
  by (induction rows) auto

lemma fst_save_car: "fst (save_car now c d) = c\<lparr>updated_at := now\<rparr>"
  by (simp add: save_car_def Let_def)

lemma bookings_save_car: "bookings (snd (save_car now c d)) = bookings d"
  by (simp add: save_car_def Let_def)

lemma get_car_save_car:
  "get_car (snd (save_car now c d)) k =
     (if k = car_id c then Some (c\<lparr>updated_at := now\<rparr>) else get_car d k)"
proof (cases "\<exists>r \<in> set (cars d). car_id r = car_id c")
  case True
  then show ?thesis
    using find_map_replace_car [of k "c\<lparr>updated_at := now\<rparr>" "cars d"]
    by (simp add: get_car_def save_car_def Let_def)
next
  case False
  then have none: "find (\<lambda>r. car_id r = car_id c) (cars d) = None"
    by (simp add: find_None_iff)
  show ?thesis
  proof (cases "k = car_id c")
    case True
    with False none show ?thesis
      by (simp add: get_car_def save_car_def Let_def find_append_one)
  next
    case k: False
    with False show ?thesis
      by (auto simp: get_car_def save_car_def Let_def find_append_one split: option.splits)
  qed
qed

text \<open>
  Claim C7, as the claim states it, says that no car field other than the status is
  modified. The save that writes the status also refreshes \<^verbatim>\<open>updated_at\<close>: called
  with \<^verbatim>\<open>confirmed\<close> at midnight of January 2 for the sample car, whose
  \<^verbatim>\<open>updated_at\<close> was the epoch, the function returns the car with status \<^verbatim>\<open>rented\<close> and
  \<^verbatim>\<open>updated_at\<close> set to that instant.
\<close>

theorem update_car_status_changes_updated_at:
  "fst (update_car_status_after_booking \<lparr>cars = [sample_car], bookings = []\<rparr>
          (jan 2 0) (jan 2 0) (jan 2 0) sample_car ''confirmed'') =
     sample_car\<lparr>car_status := ''rented'', updated_at := jan 2 0\<rparr> \<and>
   updated_at (fst (update_car_status_after_booking \<lparr>cars = [sample_car], bookings = []\<rparr>
          (jan 2 0) (jan 2 0) (jan 2 0) sample_car ''confirmed'')) \<noteq> updated_at sample_car"
  by (simp add: update_car_status_after_booking_def fst_save_car)

text \<open>
  Claim C7, amended. Called with \<^verbatim>\<open>confirmed\<close>, the function sets the car's status to
  \<^verbatim>\<open>rented\<close>. Called with \<^verbatim>\<open>cancelled\<close> or \<^verbatim>\<open>completed\<close>, it sets the status to
  \<^verbatim>\<open>available\<close> only if no booking of that car with status \<^verbatim>\<open>pending\<close> or
  \<^verbatim>\<open>confirmed\<close> contains the present moment (\<open>start \<le> now \<le> end\<close> as instants, with \<open>now\<close>
  the two clock readings of the query), and otherwise leaves the car and the database as
  they are, as it does for any other status. Whenever it sets the status, the save also
  sets \<^verbatim>\<open>updated_at\<close> to the time of the save and writes the car to its row; no other
  field of the car, no other car and no booking is modified.
\<close>

theorem update_car_status_after_booking_effect:
  "case update_car_status_after_booking d now_lte now_gte now_save c status of (c', d') \<Rightarrow>
     bookings d' = bookings d \<and>
     (\<forall>k. k \<noteq> car_id c \<longrightarrow> get_car d' k = get_car d k) \<and>
     (if status = ''confirmed''
      then c' = c\<lparr>car_status := ''rented'', updated_at := now_save\<rparr> \<and>
           get_car d' (car_id c) = Some c'
      else if (status = ''cancelled'' \<or> status = ''completed'') \<and>
              \<not> (\<exists>b \<in> set (bookings d).
                    booking_car b = car_id c \<and>
                    (booking_status b = ''pending'' \<or> booking_status b = ''confirmed'') \<and>
                    instant (booking_start b) \<le> instant now_lte \<and> instant now_gte \<le> instant (booking_end b))
      then c' = c\<lparr>car_status := ''available'', updated_at := now_save\<rparr> \<and>
           get_car d' (car_id c) = Some c'
      else c' = c \<and> d' = d)"
proof -
  define active where
    "active \<longleftrightarrow> (\<exists>b \<in> set (bookings d).
                    booking_car b = car_id c \<and>
                    (booking_status b = ''pending'' \<or> booking_status b = ''confirmed'') \<and>
                    instant (booking_start b) \<le> instant now_lte \<and> instant now_gte \<le> instant (booking_end b))"
  have query: "(filter (\<lambda>b. booking_car b = car_id c \<and>
                            booking_status b \<in> set [''pending'', ''confirmed''] \<and>
                            instant (booking_start b) \<le> instant now_lte \<and>
                            instant (booking_end b) \<ge> instant now_gte)
                 (bookings d) \<noteq> []) \<longleftrightarrow> active"
    unfolding active_def by (auto simp: filter_empty_conv)
  have saved: "save_car now_save (c\<lparr>car_status := st\<rparr>) d =
      (c\<lparr>car_status := st, updated_at := now_save\<rparr>, snd (save_car now_save (c\<lparr>car_status := st\<rparr>) d))" for st
    using fst_save_car [of now_save "c\<lparr>car_status := st\<rparr>" d] by (simp add: prod_eq_iff)
  have eq: "update_car_status_after_booking d now_lte now_gte now_save c status =
      (if status = ''confirmed''
       then (c\<lparr>car_status := ''rented'', updated_at := now_save\<rparr>,
             snd (save_car now_save (c\<lparr>car_status := ''rented''\<rparr>) d))
       else if (status = ''cancelled'' \<or> status = ''completed'') \<and> \<not> active
       then (c\<lparr>car_status := ''available'', updated_at := now_save\<rparr>,
             snd (save_car now_save (c\<lparr>car_status := ''available''\<rparr>) d))
       else (c, d))"
    unfolding update_car_status_after_booking_def query Let_def
    using saved [of "''rented''"] saved [of "''available''"] by auto
  show ?thesis
    unfolding active_def [symmetric] eq
    by (simp add: bookings_save_car get_car_save_car)
qed

text \<open>
  A rented car with a confirmed booking running over January 2 stays as it is when
  another booking is cancelled on that day; once that booking is cancelled too, the car
  becomes available.
\<close>

theorem update_car_status_after_booking_effect_witness:
  "update_car_status_after_booking
     \<lparr>cars = [sample_car\<lparr>car_status := ''rented''\<rparr>],
      bookings = [sample_booking ''confirmed'' (jan 1 0) (jan 3 0)]\<rparr>
     (jan 2 0) (jan 2 0) (jan 2 0) (sample_car\<lparr>car_status := ''rented''\<rparr>) ''cancelled'' =
     (sample_car\<lparr>car_status := ''rented''\<rparr>,
      \<lparr>cars = [sample_car\<lparr>car_status := ''rented''\<rparr>],
       bookings = [sample_booking ''confirmed'' (jan 1 0) (jan 3 0)]\<rparr>) \<and>
   fst (update_car_status_after_booking
     \<lparr>cars = [sample_car\<lparr>car_status := ''rented''\<rparr>],
      bookings = [sample_booking ''cancelled'' (jan 1 0) (jan 3 0)]\<rparr>
     (jan 2 0) (jan 2 0) (jan 2 0) (sample_car\<lparr>car_status := ''rented''\<rparr>) ''cancelled'') =
     sample_car\<lparr>car_status := ''available'', updated_at := jan 2 0\<rparr>"
  using
    update_car_status_after_booking_effect [where
      d = "\<lparr>cars = [sample_car\<lparr>car_status := ''rented''\<rparr>],
            bookings = [sample_booking ''confirmed'' (jan 1 0) (jan 3 0)]\<rparr>"
      and now_lte = "jan 2 0" and now_gte = "jan 2 0" and now_save = "jan 2 0"
      and c = "sample_car\<lparr>car_status := ''rented''\<rparr>" and status = "''cancelled''"]
    update_car_status_after_booking_effect [where
      d = "\<lparr>cars = [sample_car\<lparr>car_status := ''rented''\<rparr>],
            bookings = [sample_booking ''cancelled'' (jan 1 0) (jan 3 0)]\<rparr>"
      and now_lte = "jan 2 0" and now_gte = "jan 2 0" and now_save = "jan 2 0"
      and c = "sample_car\<lparr>car_status := ''rented''\<rparr>" and status = "''cancelled''"]
  by (auto split: prod.splits)

section \<open>Two requests for the same car\<close>










end
